theory Spec2Isabelle
  imports Main
begin

section \<open>Go standard library functions used by the handlers\<close>

text \<open>
  Go strings are byte sequences; they are modelled as \<open>string\<close> (a list of characters).
  The functions of this section are the library calls the handlers make on strings and
  paths: \<open>strings.HasSuffix\<close>, \<open>strings.TrimSuffix\<close>, \<open>strings.Split\<close> with a
  one-byte separator, \<open>strings.Join\<close>, \<open>filepath.Ext\<close>, \<open>filepath.Clean\<close> and
  \<open>filepath.Join\<close> (with the separator of the deployment platform, \<open>/\<close>).
\<close>

definition HasSuffix :: "string \<Rightarrow> string \<Rightarrow> bool" where
  "HasSuffix s suffix =
     (length suffix \<le> length s \<and> drop (length s - length suffix) s = suffix)"

definition TrimSuffix :: "string \<Rightarrow> string \<Rightarrow> string" where
  "TrimSuffix s suffix =
     (if HasSuffix s suffix then take (length s - length suffix) s else s)"

text \<open>\<open>strings.Split(s, sep)\<close> for a separator of one byte: never empty, \<open>[s]\<close> when the
  separator does not occur.\<close>

fun split_acc :: "char \<Rightarrow> string \<Rightarrow> string \<Rightarrow> string list" where
  "split_acc sep cur [] = [rev cur]"
| "split_acc sep cur (x # xs) =
     (if x = sep then rev cur # split_acc sep [] xs else split_acc sep (x # cur) xs)"

definition Split :: "string \<Rightarrow> char \<Rightarrow> string list" where
  "Split s sep = split_acc sep [] s"

fun strings_Join :: "string list \<Rightarrow> string \<Rightarrow> string" where
  "strings_Join [] sep = []"
| "strings_Join [e] sep = e"
| "strings_Join (e # es) sep = e @ sep @ strings_Join es sep"

text \<open>\<open>filepath.Ext\<close>: the suffix beginning at the final dot of the final path element,
  empty when that element has no dot. The scan runs from the end of the path and stops at
  the first separator.\<close>

fun ext_scan :: "string \<Rightarrow> string \<Rightarrow> string" where
  "ext_scan [] acc = []"
| "ext_scan (x # xs) acc =
     (if x = CHR ''/'' then []
      else if x = CHR ''.'' then x # acc
      else ext_scan xs (x # acc))"

definition Ext :: "string \<Rightarrow> string" where
  "Ext path = ext_scan (rev path) []"

text \<open>\<open>filepath.Clean\<close>, on the list of path elements: empty elements and \<open>.\<close> are
  dropped; \<open>..\<close> removes the element before it when there is one to remove, is dropped at
  the root of a rooted path and is kept otherwise. The output elements are accumulated in
  reverse.\<close>

fun clean_elems :: "bool \<Rightarrow> string list \<Rightarrow> string list \<Rightarrow> string list" where
  "clean_elems rooted out [] = rev out"
| "clean_elems rooted out (e # es) =
     (if e = [] \<or> e = ''.'' then clean_elems rooted out es
      else if e = ''..'' then
        (case out of
           [] \<Rightarrow> clean_elems rooted (if rooted then [] else [''..'']) es
         | o1 # os \<Rightarrow>
             if o1 = ''..'' then clean_elems rooted (''..'' # out) es
             else clean_elems rooted os es)
      else clean_elems rooted (e # out) es)"

definition Clean :: "string \<Rightarrow> string" where
  "Clean path =
     (if path = [] then ''.''
      else
        let rooted = (hd path = CHR ''/'');
            body = strings_Join (clean_elems rooted [] (Split path (CHR ''/''))) ''/''
        in if rooted then CHR ''/'' # body
           else if body = [] then ''.'' else body)"

text \<open>\<open>filepath.Join\<close>: leading empty elements are skipped, the rest is joined with the
  separator and cleaned; the result is empty when every element is.\<close>

fun filepath_Join :: "string list \<Rightarrow> string" where
  "filepath_Join [] = []"
| "filepath_Join (e # es) =
     (if e = [] then filepath_Join es else Clean (strings_Join (e # es) ''/''))"

section \<open>Data of the server package\<close>

text \<open>Errors are values. \<open>HTTPError code message\<close> is \<open>echo.NewHTTPError\<close>;
  \<open>ErrWrapped\<close> is an error built by \<open>fmt.Errorf\<close> with \<open>%w\<close>; \<open>EOF\<close> is \<open>io.EOF\<close>;
  \<open>ErrOther\<close> stands for any other error value a collaborator or the standard library
  returns; \<open>Panic\<close> is a run-time panic.\<close>

datatype error =
    HTTPError nat string
  | ErrProjectNotExists
  | ErrWrapped string error
  | ErrOther string
  | EOF
  | Panic string

definition ErrNotFound :: error where
  "ErrNotFound = HTTPError 404 ''Not Found''"

definition ErrUnauthorized :: error where
  "ErrUnauthorized = HTTPError 401 ''Unauthorized''"

fun errors_Is :: "error \<Rightarrow> error \<Rightarrow> bool" where
  "errors_Is (ErrWrapped m e) target = (ErrWrapped m e = target \<or> errors_Is e target)"
| "errors_Is e target = (e = target)"

text \<open>The types of the \<open>domain\<close> package, whose declarations are not among the sources:
  each record has the fields that the handlers read or write (\<open>LayerPermission\<close> is
  written out in full by \<open>getLayerPermissions\<close>). \<open>OwsRequestParams\<close> holds the query
  parameters that echo binds for the OWS handler.\<close>

record LayerPermission =
  View :: bool
  Insert :: bool
  Update :: bool
  Delete :: bool

record User =
  Username :: string
  IsSuperuser :: bool

record ProjectInfo =
  State :: string
  QgisFile :: string

record LayersData =
  LayerNameToID :: "string \<rightharpoonup> string"

record OwsRequestParams =
  Service :: string
  Request :: string
  Map :: string

text \<open>The WFS transaction document that the body of a request is unmarshalled into. Its
  declaration is not among the sources either; it has the fields the handler reads: the
  type name of every update and delete, and the element name of every object of every
  insert.\<close>

datatype wfs_update = WfsUpdate (update_TypeName: string)
datatype wfs_object = WfsObject (XMLName_Local: string)
datatype wfs_insert = WfsInsert (Objects: "wfs_object list")
datatype wfs_delete = WfsDelete (delete_TypeName: string)

record Transaction =
  Updates :: "wfs_update list"
  Inserts :: "wfs_insert list"
  Deletes :: "wfs_delete list"

text \<open>An HTTP request. The raw query string of the URL is represented by the
  \<open>url.Values\<close> it decodes to, a map from a key to its list of values, so that
  \<open>URL.Query()\<close> reads the field and \<open>query.Encode()\<close> stores it.\<close>

record url =
  Scheme :: string
  Host :: string
  Path :: string
  Query :: "string \<rightharpoonup> string list"

record http_request =
  URL :: url
  Header :: "string \<rightharpoonup> string list"
  Body :: string

record http_response =
  StatusCode :: nat
  ResponseBody :: string

text \<open>The echo context of a request: the path parameters \<open>user\<close> and \<open>name\<close>, the value
  stored under \<open>project\<close> by the access middleware, and the request.\<close>

record echo_Context =
  Param_user :: string
  Param_name :: string
  Get_project :: string
  Req :: http_request

text \<open>\<open>domain.ProjectFile\<close> and \<open>domain.FilesChanges\<close>, with the fields the handlers
  set. The field names carry the name of the type, since \<open>Path\<close> and \<open>Updates\<close> are
  fields of other records.\<close>

record ProjectFile =
  ProjectFile_Path :: string
  ProjectFile_Size :: nat

record FilesChanges =
  FilesChanges_Updates :: "ProjectFile list"
  FilesChanges_Removes :: "string list"

text \<open>What the handler that deletes files answers: the error it returns, or the response
  it writes with \<open>c.JSON\<close>.\<close>

datatype reply = Failed error | JSON nat "ProjectFile list"

subsection \<open>The parts of an upload\<close>

text \<open>A part of the multipart body of an upload, as \<open>multipart.Reader.NextPart\<close> returns
  it: the handler reads its form name and its file name (\<open>part.FormName()\<close>,
  \<open>part.FileName()\<close>) and reads its content through it.\<close>

record Part =
  FormName :: string
  FileName :: string

text \<open>The reader behind a \<open>ProgressReader\<close>: the part itself, a gzip reader over it, or
  the nil \<open>*gzip.Reader\<close> that \<open>gzip.NewReader\<close> returns with an error. The state of a gzip
  reader is internal to the standard library; it is kept as a string.\<close>

type_synonym gzip_Reader = string

datatype Reader = PartReader Part | GzipReader gzip_Reader | NilGzipReader

text \<open>The state a request of the project files runs on: the request body with the
  multipart reader over it (\<open>'b\<close>, which only the standard library reads), the
  variables captured by the closures of the upload handler (\<open>uploadProgress\<close>,
  \<open>lastNotification\<close>), the number of times the clock has been read, the messages sent
  on the application channel (user name, message type, payload), and the file manifest
  of every existing project.\<close>

record 'b upload_state =
  body :: 'b
  uploadProgress :: "string \<rightharpoonup> int"
  lastNotification :: int
  ticks :: nat
  sent :: "(string \<times> string \<times> (string \<rightharpoonup> int)) list"
  files :: "string \<rightharpoonup> ProjectFile list"

record 'b ProgressReader =
  Reader :: Reader
  Callback :: "int \<Rightarrow> 'b upload_state \<Rightarrow> 'b upload_state"
  Step :: int
  Progress :: int
  lastVal :: int

subsection \<open>Collaborators\<close>

text \<open>The functions of the standard library and of echo that the handlers call and that
  are not modelled above; their code is not part of the repository, and the handlers are
  verified for every behaviour of them. \<open>BindQueryParams\<close> binds the query of a request
  to \<open>OwsRequestParams\<close>; \<open>BindBody\<close> binds the body of a deletion request and gives the
  list \<open>Files\<close>. \<open>NextPart\<close> is \<open>multipart.Reader.NextPart\<close> and \<open>Part_Read\<close> is
  \<open>Part.Read\<close> with a buffer of the given length; both, and the gzip functions, read
  from the request body. \<open>clock n\<close> is the time, in nanoseconds, that the \<open>n\<close>-th call of
  \<open>time.Now\<close> returns.\<close>

record 'b golib =
  url_Parse :: "string \<Rightarrow> error + url"
  xml_Unmarshal :: "string \<Rightarrow> error + Transaction"
  BindQueryParams :: "echo_Context \<Rightarrow> error + OwsRequestParams"
  BindBody :: "echo_Context \<Rightarrow> error + string list"
  NextPart :: "'b \<Rightarrow> (error + Part) \<times> 'b"
  Part_Read :: "Part \<Rightarrow> nat \<Rightarrow> 'b \<Rightarrow> (string \<times> error option) \<times> 'b"
  gzip_NewReader :: "Part \<Rightarrow> 'b \<Rightarrow> (error + gzip_Reader) \<times> 'b"
  gzip_Read :: "gzip_Reader \<Rightarrow> nat \<Rightarrow> 'b \<Rightarrow> ((string \<times> error option) \<times> gzip_Reader) \<times> 'b"
  clock :: "nat \<Rightarrow> int"

text \<open>The server: its configuration, the library, and the services whose code is outside
  the server package (the project service, the authentication service, the permission
  method of the project settings, the backend map renderer). \<open>'s\<close> is the type of the
  project settings, which the handlers only pass on to \<open>UserLayerPermissions\<close>.
  \<open>UpdateFiles\<close> takes the project name, the changes, the function that yields the next
  file (\<open>None\<close> for \<open>nil\<close>) and the state; it may not return (\<open>None\<close>).\<close>

record ('b, 's) server =
  MapserverURL :: string
  lib :: "'b golib"
  GetProjectInfo :: "string \<Rightarrow> error + ProjectInfo"
  GetSettings :: "string \<Rightarrow> error + 's"
  GetUser :: "echo_Context \<Rightarrow> User \<times> error option"
  GetLayersData :: "string \<Rightarrow> error + LayersData"
  UserLayerPermissions :: "'s \<Rightarrow> User \<Rightarrow> string \<Rightarrow> LayerPermission"
  UpdateFiles :: "string \<Rightarrow> FilesChanges
                    \<Rightarrow> ('b upload_state
                         \<Rightarrow> (error + string \<times> 'b ProgressReader) \<times> 'b upload_state) option
                    \<Rightarrow> 'b upload_state
                    \<Rightarrow> ((error + ProjectFile list) \<times> 'b upload_state) option"
  backend :: "http_request \<Rightarrow> http_response"

text \<open>What a run of the OWS handler did: the error it returned (\<open>None\<close> for \<open>nil\<close>), the
  requests sent to the backend, and the response written to the client.\<close>

record outcome =
  err :: "error option"
  forwarded :: "http_request list"
  response :: "http_response option"

section \<open>The OWS handler\<close>

definition getProjectName :: "echo_Context \<Rightarrow> string" where
  "getProjectName c = filepath_Join [Param_user c, Param_name c]"

text \<open>The director of the reverse proxy. The error of \<open>url.Parse\<close> is dropped by the
  source, so a configured address that does not parse leaves a nil target, and reading
  its fields panics.\<close>

definition director :: "('b, 's) server \<Rightarrow> http_request \<Rightarrow> error + http_request" where
  "director s req =
     (case url_Parse (lib s) (MapserverURL s) of
        Inl e \<Rightarrow> Inl (Panic ''nil pointer dereference'')
      | Inr target \<Rightarrow>
          Inr (req\<lparr>URL := (URL req)\<lparr>Path := Path target, Scheme := Scheme target,
                                     Host := Host target\<rparr>,
                   Header := (if Header req ''User-Agent'' = None
                              then (Header req)(''User-Agent'' \<mapsto> [[]])
                              else Header req)\<rparr>))"

text \<open>\<open>reverseProxy.ServeHTTP\<close>: the director rewrites the outgoing request, the backend
  answers it, and the answer is written to the client.\<close>

definition ServeHTTP :: "('b, 's) server \<Rightarrow> http_request \<Rightarrow> outcome" where
  "ServeHTTP s req =
     (case director s req of
        Inl e \<Rightarrow> \<lparr>err = Some e, forwarded = [], response = None\<rparr>
      | Inr out \<Rightarrow> \<lparr>err = None, forwarded = [out], response = Some (backend s out)\<rparr>)"

definition NoPermission :: LayerPermission where
  "NoPermission = \<lparr>View = False, Insert = False, Update = False, Delete = False\<rparr>"

text \<open>The closure \<open>getLayerPermissions\<close>, with the request's cache \<open>perms\<close> passed in
  and returned. Its first three statements compute the layer id (\<open>layerId\<close>): the type
  name is split at the colons, the last part is the layer name, and a name missing from
  \<open>LayerNameToID\<close> reads as the empty id. A cached permission is returned; otherwise
  the permission is computed and stored, and the function falls through to its last
  statement, which returns the permission with every flag false.\<close>

definition layerId :: "LayersData \<Rightarrow> string \<Rightarrow> string" where
  "layerId layersData typeName =
     (let parts = Split typeName (CHR '':'');
          lname = last parts
      in case LayerNameToID layersData lname of None \<Rightarrow> [] | Some i \<Rightarrow> i)"

definition getLayerPermissions ::
  "('b, 's) server \<Rightarrow> 's \<Rightarrow> User \<Rightarrow> LayersData \<Rightarrow> string \<Rightarrow> (string \<rightharpoonup> LayerPermission)
     \<Rightarrow> LayerPermission \<times> (string \<rightharpoonup> LayerPermission)" where
  "getLayerPermissions s settings user layersData typeName perms =
     (let id = layerId layersData typeName
      in case perms id of
           Some perm \<Rightarrow> (perm, perms)
         | None \<Rightarrow> (NoPermission, perms(id \<mapsto> UserLayerPermissions s settings user id)))"

text \<open>The three authorization loops of the handler, in the order of the source: the
  updates, the objects of the inserts, the deletes. Each returns at the first operation
  whose permission lacks the flag. The loops call the closure \<open>glp\<close> and pass on the state
  it keeps (\<open>'c\<close>; in the handler, the cache \<open>perms\<close>).\<close>

fun checkUpdates ::
  "(string \<Rightarrow> 'c \<Rightarrow> LayerPermission \<times> 'c) \<Rightarrow> wfs_update list \<Rightarrow> 'c \<Rightarrow> error option \<times> 'c" where
  "checkUpdates glp [] perms = (None, perms)"
| "checkUpdates glp (u # us) perms =
     (case glp (update_TypeName u) perms of
        (p, perms') \<Rightarrow>
          if \<not> Update p then (Some ErrUnauthorized, perms') else checkUpdates glp us perms')"

fun checkObjects ::
  "(string \<Rightarrow> 'c \<Rightarrow> LayerPermission \<times> 'c) \<Rightarrow> wfs_object list \<Rightarrow> 'c \<Rightarrow> error option \<times> 'c" where
  "checkObjects glp [] perms = (None, perms)"
| "checkObjects glp (ob # obs) perms =
     (case glp (XMLName_Local ob) perms of
        (p, perms') \<Rightarrow>
          if \<not> Insert p then (Some ErrUnauthorized, perms') else checkObjects glp obs perms')"

fun checkInserts ::
  "(string \<Rightarrow> 'c \<Rightarrow> LayerPermission \<times> 'c) \<Rightarrow> wfs_insert list \<Rightarrow> 'c \<Rightarrow> error option \<times> 'c" where
  "checkInserts glp [] perms = (None, perms)"
| "checkInserts glp (i # is) perms =
     (case checkObjects glp (Objects i) perms of
        (Some e, perms') \<Rightarrow> (Some e, perms')
      | (None, perms') \<Rightarrow> checkInserts glp is perms')"

fun checkDeletes ::
  "(string \<Rightarrow> 'c \<Rightarrow> LayerPermission \<times> 'c) \<Rightarrow> wfs_delete list \<Rightarrow> 'c \<Rightarrow> error option \<times> 'c" where
  "checkDeletes glp [] perms = (None, perms)"
| "checkDeletes glp (d # ds) perms =
     (case glp (delete_TypeName d) perms of
        (p, perms') \<Rightarrow>
          if \<not> Delete p then (Some ErrUnauthorized, perms') else checkDeletes glp ds perms')"

definition checkTransaction ::
  "(string \<Rightarrow> 'c \<Rightarrow> LayerPermission \<times> 'c) \<Rightarrow> Transaction \<Rightarrow> 'c \<Rightarrow> error option \<times> 'c" where
  "checkTransaction glp tx perms =
     (case checkUpdates glp (Updates tx) perms of
        (Some e, perms1) \<Rightarrow> (Some e, perms1)
      | (None, perms1) \<Rightarrow>
          (case checkInserts glp (Inserts tx) perms1 of
             (Some e, perms2) \<Rightarrow> (Some e, perms2)
           | (None, perms2) \<Rightarrow> checkDeletes glp (Deletes tx) perms2))"

text \<open>The last step of the handler: the \<open>MAP\<close> parameter of the request is set to the
  path of the project file and the request is handed to the reverse proxy. The project
  name is the one of the URL path, computed at the start of the handler.\<close>

definition forwardOws ::
  "('b, 's) server \<Rightarrow> echo_Context \<Rightarrow> string \<Rightarrow> ProjectInfo \<Rightarrow> outcome" where
  "forwardOws s c projectName pInfo =
     (let owsProject = filepath_Join [''/publish'', projectName, QgisFile pInfo];
          req = Req c;
          query = (Query (URL req))(''MAP'' \<mapsto> [owsProject])
      in ServeHTTP s (req\<lparr>URL := (URL req)\<lparr>Query := query\<rparr>\<rparr>))"

definition failWith :: "error \<Rightarrow> outcome" where
  "failWith e = \<lparr>err = Some e, forwarded = [], response = None\<rparr>"

definition handleMapOws :: "('b, 's) server \<Rightarrow> echo_Context \<Rightarrow> outcome" where
  "handleMapOws s c =
     (case BindQueryParams (lib s) c of
        Inl e \<Rightarrow> failWith (HTTPError 400 ''Invalid query parameters'')
      | Inr params \<Rightarrow>
          let projectName = getProjectName c in
          (case GetProjectInfo s projectName of
             Inl e \<Rightarrow> failWith (if errors_Is e ErrProjectNotExists then ErrNotFound else e)
           | Inr pInfo \<Rightarrow>
               (case GetSettings s projectName of
                  Inl e \<Rightarrow> failWith e
                | Inr settings \<Rightarrow>
                    let user = fst (GetUser s c) in
                    if Service params = ''WFS'' \<and> Request params = [] then
                      let mapProject = TrimSuffix (Map params) (Ext (Map params)) in
                      (case GetLayersData s mapProject of
                         Inl e \<Rightarrow> failWith e
                       | Inr layersData \<Rightarrow>
                           (case xml_Unmarshal (lib s) (Body (Req c)) of
                              Inl e \<Rightarrow> failWith e
                            | Inr wfsTransaction \<Rightarrow>
                                (case fst (checkTransaction
                                             (getLayerPermissions s settings user layersData)
                                             wfsTransaction Map.empty) of
                                   Some e \<Rightarrow> failWith e
                                 | None \<Rightarrow> forwardOws s c projectName pInfo)))
                    else forwardOws s c projectName pInfo)))"

section \<open>The handlers of the project files\<close>

text \<open>\<open>Read\<close> on the reader held by a \<open>ProgressReader\<close>. The method of a nil
  \<open>*gzip.Reader\<close> dereferences it: a panic (\<open>Inl\<close>).\<close>

definition Reader_Read ::
  "'b golib \<Rightarrow> Reader \<Rightarrow> nat \<Rightarrow> 'b \<Rightarrow> error + ((string \<times> error option) \<times> Reader \<times> 'b)" where
  "Reader_Read l rd k b =
     (case rd of
        PartReader part \<Rightarrow>
          (case Part_Read l part k b of (res, b1) \<Rightarrow> Inr (res, PartReader part, b1))
      | GzipReader z \<Rightarrow>
          (case gzip_Read l z k b of ((res, z1), b1) \<Rightarrow> Inr (res, GzipReader z1, b1))
      | NilGzipReader \<Rightarrow> Inl (Panic ''nil pointer dereference''))"

subsection \<open>ProgressReader\<close>

text \<open>\<open>ProgressReader.Read\<close> with a buffer of \<open>k\<close> bytes. \<open>Progress\<close> grows by the number
  of bytes read; the callback runs when the progress since the last call has reached
  \<open>Step\<close> or the read returned \<open>io.EOF\<close>. The fields are Go \<open>int\<close>s (64 bits), modelled as
  integers: they count the bytes of one upload.\<close>

definition ProgressReader_Read ::
  "'b golib \<Rightarrow> 'b ProgressReader \<Rightarrow> nat \<Rightarrow> 'b upload_state
     \<Rightarrow> error + ((string \<times> error option) \<times> 'b ProgressReader \<times> 'b upload_state)" where
  "ProgressReader_Read l r k st =
     (case Reader_Read l (Reader r) k (body st) of
        Inl p \<Rightarrow> Inl p
      | Inr ((bytes, e), rd, b) \<Rightarrow>
          let st1 = st\<lparr>body := b\<rparr>;
              r1 = r\<lparr>Reader := rd, Progress := Progress r + int (length bytes)\<rparr>
          in if Progress r1 - lastVal r1 \<ge> Step r1 \<or> e = Some EOF
             then Inr ((bytes, e), r1\<lparr>lastVal := Progress r1\<rparr>, Callback r1 (Progress r1) st1)
             else Inr ((bytes, e), r1, st1))"

subsection \<open>The closures of the upload handler\<close>

text \<open>The callback that \<open>nextFile\<close> gives to the \<open>ProgressReader\<close> of a part: the
  progress of the part is recorded, and when more than half a second has passed since
  the last notification the progress map is sent to the user and replaced by an empty
  one. \<open>Duration.Seconds() > 0.5\<close> holds exactly when the duration exceeds 500000000
  nanoseconds.\<close>

definition progressCallback ::
  "'b golib \<Rightarrow> User \<Rightarrow> Part \<Rightarrow> int \<Rightarrow> 'b upload_state \<Rightarrow> 'b upload_state" where
  "progressCallback l user part p st =
     (let st1 = st\<lparr>uploadProgress := (uploadProgress st)(FormName part \<mapsto> p)\<rparr>;
          now = clock l (ticks st1);
          st2 = st1\<lparr>ticks := Suc (ticks st1)\<rparr>
      in if now - lastNotification st2 > 500000000
         then st2\<lparr>sent := sent st2 @ [(Username user, ''UploadProgress'', uploadProgress st2)],
                  lastNotification := now,
                  uploadProgress := Map.empty\<rparr>
         else st2)"

text \<open>The closure \<open>nextFile\<close> of \<open>handleUpload\<close>, which the handler gives to
  \<open>UpdateFiles\<close>. At the end of the parts the progress map is sent. The error of
  \<open>gzip.NewReader\<close> is dropped: the reader is then the nil pointer.\<close>

definition nextFile ::
  "'b golib \<Rightarrow> User \<Rightarrow> 'b upload_state
     \<Rightarrow> (error + string \<times> 'b ProgressReader) \<times> 'b upload_state" where
  "nextFile l user st =
     (case NextPart l (body st) of
        (Inl e, b) \<Rightarrow>
          let st1 = st\<lparr>body := b\<rparr>
          in if e = EOF
             then (Inl e, st1\<lparr>sent := sent st1
                                 @ [(Username user, ''UploadProgress'', uploadProgress st1)]\<rparr>)
             else (Inl e, st1)
      | (Inr part, b) \<Rightarrow>
          let (partReader, b1) =
                (if HasSuffix (FileName part) ''.gz'' \<and> \<not> HasSuffix (FormName part) ''.gz''
                 then (case gzip_NewReader l part b of
                         (Inl e, b') \<Rightarrow> (NilGzipReader, b')
                       | (Inr z, b') \<Rightarrow> (GzipReader z, b'))
                 else (PartReader part, b));
              pr = \<lparr>Reader = partReader, Callback = progressCallback l user part,
                    Step = 32 * 1024, Progress = 0, lastVal = 0\<rparr>
          in (Inr (FormName part, pr), st\<lparr>body := b1\<rparr>))"

subsection \<open>The handler that deletes files\<close>

definition handleDeleteProjectFiles ::
  "('b, 's) server \<Rightarrow> echo_Context \<Rightarrow> 'b upload_state \<Rightarrow> (reply \<times> 'b upload_state) option" where
  "handleDeleteProjectFiles s c st =
     (let projectName = Get_project c
      in case BindBody (lib s) c of
           Inl e \<Rightarrow> Some (Failed e, st)
         | Inr data_Files \<Rightarrow>
             if length data_Files < 1
             then Some (Failed (HTTPError 400 ''No files specified''), st)
             else
               let changes = \<lparr>FilesChanges_Updates = [], FilesChanges_Removes = data_Files\<rparr>
               in (case UpdateFiles s projectName changes None st of
                     None \<Rightarrow> None
                   | Some (Inl e, st1) \<Rightarrow> Some (Failed e, st1)
                   | Some (Inr fs, st1) \<Rightarrow> Some (JSON 200 fs, st1)))"

section \<open>The operations of a transaction and the lookups of a run\<close>

text \<open>
  The operations of a transaction in the order in which the handler examines them: the
  updates, then the objects of the inserts, then the deletes, each with the type name that
  the handler passes to \<open>getLayerPermissions\<close>. \<open>flagOf\<close> is the flag of a permission
  that the handler tests for an operation of a kind, and \<open>granted\<close> says that the
  permission which the project settings give the user on the layer of an operation has
  that flag.
\<close>

datatype op_kind = OpUpdate | OpInsert | OpDelete

definition operations :: "Transaction \<Rightarrow> (op_kind \<times> string) list" where
  "operations tx =
     map (\<lambda>u. (OpUpdate, update_TypeName u)) (Updates tx)
     @ concat (map (\<lambda>i. map (\<lambda>ob. (OpInsert, XMLName_Local ob)) (Objects i)) (Inserts tx))
     @ map (\<lambda>d. (OpDelete, delete_TypeName d)) (Deletes tx)"

fun flagOf :: "op_kind \<Rightarrow> LayerPermission \<Rightarrow> bool" where
  "flagOf OpUpdate p = Update p"
| "flagOf OpInsert p = Insert p"
| "flagOf OpDelete p = Delete p"

definition granted ::
  "('b, 's) server \<Rightarrow> 's \<Rightarrow> User \<Rightarrow> LayersData \<Rightarrow> op_kind \<times> string \<Rightarrow> bool" where
  "granted s settings user layersData op =
     flagOf (fst op) (UserLayerPermissions s settings user (layerId layersData (snd op)))"

text \<open>
  The lookups of a run. The definitions of the loops take the closure as a parameter, so
  the loops can be run on a closure that also writes down every call it receives: \<open>logged glp\<close>
  behaves as \<open>glp\<close> on the cache and appends the type name it was called with and the
  permission it returned to a list. \<open>lookups glp tx\<close> is that list after the run of the
  three loops on the cache of a new request, which is empty.
\<close>

definition logged ::
  "(string \<Rightarrow> 'c \<Rightarrow> LayerPermission \<times> 'c) \<Rightarrow> string
     \<Rightarrow> 'c \<times> (string \<times> LayerPermission) list
     \<Rightarrow> LayerPermission \<times> ('c \<times> (string \<times> LayerPermission) list)" where
  "logged glp typeName cl =
     (case glp typeName (fst cl) of
        (p, perms') \<Rightarrow> (p, (perms', snd cl @ [(typeName, p)])))"

definition lookups ::
  "(string \<Rightarrow> (string \<rightharpoonup> LayerPermission) \<Rightarrow> LayerPermission \<times> (string \<rightharpoonup> LayerPermission))
     \<Rightarrow> Transaction \<Rightarrow> (string \<times> LayerPermission) list" where
  "lookups glp tx = snd (snd (checkTransaction (logged glp) tx (Map.empty, [])))"

section \<open>An example server\<close>

text \<open>
  A server with one project, \<open>alice/town\<close>, whose project file is \<open>town.qgs\<close> and whose
  layer \<open>parcels\<close> has the id \<open>parcels_1\<close>; the user of every request is \<open>bob\<close>, who is
  not a superuser. The parameters are the state of the project, the permission the
  settings give \<open>bob\<close> on the layer, and the transaction that the body of a request
  parses to. The body of an upload is the list of the parts that have not been delivered
  yet, and every part of the examples is empty: a read of a part is at its end, and so
  is the read of the gzip header. The project service of the example applies the
  removals of a change set to the manifest of the project. The theorems below are run on
  this server.
\<close>

type_synonym town_body = "Part list"

definition grantAll :: LayerPermission where
  "grantAll = \<lparr>View = True, Insert = True, Update = True, Delete = True\<rparr>"

definition viewOnly :: LayerPermission where
  "viewOnly = \<lparr>View = True, Insert = False, Update = False, Delete = False\<rparr>"

definition firstValue :: "(string \<rightharpoonup> string list) \<Rightarrow> string \<Rightarrow> string" where
  "firstValue q k = (case q k of Some (v # vs) \<Rightarrow> v | _ \<Rightarrow> [])"

definition bindOwsQuery :: "echo_Context \<Rightarrow> error + OwsRequestParams" where
  "bindOwsQuery c =
     (let q = Query (URL (Req c))
      in Inr \<lparr>Service = firstValue q ''SERVICE'', Request = firstValue q ''REQUEST'',
              Map = firstValue q ''MAP''\<rparr>)"

definition town_target :: url where
  "town_target = \<lparr>Scheme = ''http'', Host = ''qgis-server'', Path = ''/qgis'', Query = Map.empty\<rparr>"

definition town_user :: User where
  "town_user = \<lparr>Username = ''bob'', IsSuperuser = False\<rparr>"

definition town_layers :: LayersData where
  "town_layers = \<lparr>LayerNameToID = [''parcels'' \<mapsto> ''parcels_1'']\<rparr>"

definition town_lib :: "Transaction \<Rightarrow> town_body golib" where
  "town_lib tx =
     \<lparr>url_Parse = (\<lambda>u. if u = ''http://qgis-server/qgis'' then Inr town_target
                        else Inl (ErrOther ''invalid URL'')),
      xml_Unmarshal = (\<lambda>b. if b = [] then Inl (ErrOther ''EOF'') else Inr tx),
      BindQueryParams = bindOwsQuery,
      BindBody = (\<lambda>c. if Body (Req c) = ''{files:[]}'' then Inr []
                       else if Body (Req c) = ''{files:[old.qml]}'' then Inr [''old.qml'']
                       else Inl (HTTPError 400 ''Bad Request'')),
      NextPart = (\<lambda>b. case b of [] \<Rightarrow> (Inl EOF, []) | p # ps \<Rightarrow> (Inr p, ps)),
      Part_Read = (\<lambda>p k b. (([], Some EOF), b)),
      gzip_NewReader = (\<lambda>p b. (Inl EOF, b)),
      gzip_Read = (\<lambda>z k b. ((([], Some EOF), z), b)),
      clock = (\<lambda>n. 0)\<rparr>"

definition town_server ::
  "string \<Rightarrow> LayerPermission \<Rightarrow> Transaction \<Rightarrow> (town_body, unit) server" where
  "town_server state perm tx =
     \<lparr>MapserverURL = ''http://qgis-server/qgis'',
      lib = town_lib tx,
      GetProjectInfo = (\<lambda>n. if n = ''alice/town''
                             then Inr \<lparr>State = state, QgisFile = ''town.qgs''\<rparr>
                             else Inl ErrProjectNotExists),
      GetSettings = (\<lambda>n. if n = ''alice/town'' then Inr () else Inl ErrProjectNotExists),
      GetUser = (\<lambda>c. (town_user, None)),
      GetLayersData = (\<lambda>n. if n = ''alice/town/town'' then Inr town_layers
                            else Inl ErrProjectNotExists),
      UserLayerPermissions = (\<lambda>settings user i. if i = ''parcels_1'' then perm else NoPermission),
      UpdateFiles = (\<lambda>n changes next st.
                       case files st n of
                         None \<Rightarrow> Some (Inl ErrProjectNotExists, st)
                       | Some fs \<Rightarrow>
                           let kept = filter (\<lambda>f. ProjectFile_Path f
                                                      \<notin> set (FilesChanges_Removes changes)) fs
                           in Some (Inr kept, st\<lparr>files := (files st)(n \<mapsto> kept)\<rparr>)),
      backend = (\<lambda>r. \<lparr>StatusCode = 200, ResponseBody = ''served''\<rparr>)\<rparr>"

definition town_request ::
  "string \<Rightarrow> (string \<rightharpoonup> string list) \<Rightarrow> (string \<rightharpoonup> string list) \<Rightarrow> string \<Rightarrow> echo_Context" where
  "town_request name q h b =
     \<lparr>Param_user = ''alice'', Param_name = name, Get_project = ''alice/'' @ name,
      Req = \<lparr>URL = \<lparr>Scheme = [], Host = [], Path = ''/api/map/ows/alice/'' @ name,
                    Query = q\<rparr>,
             Header = h, Body = b\<rparr>\<rparr>"

definition wfs_query :: "string \<rightharpoonup> string list" where
  "wfs_query = [''SERVICE'' \<mapsto> [''WFS''], ''MAP'' \<mapsto> [''alice/town/town.qgs'']]"

definition wms_query :: "string \<rightharpoonup> string list" where
  "wms_query = [''SERVICE'' \<mapsto> [''WMS''], ''REQUEST'' \<mapsto> [''GetMap''],
                ''MAP'' \<mapsto> [''alice/town/town.qgs'']]"

text \<open>Two more queries of WFS transaction requests: one that names the request, and one
  whose \<open>MAP\<close> parameter names a project the server does not have.\<close>

definition wfs_transaction_query :: "string \<rightharpoonup> string list" where
  "wfs_transaction_query = [''SERVICE'' \<mapsto> [''WFS''], ''REQUEST'' \<mapsto> [''Transaction''],
                            ''MAP'' \<mapsto> [''alice/town/town.qgs'']]"

definition wfs_village_query :: "string \<rightharpoonup> string list" where
  "wfs_village_query = [''SERVICE'' \<mapsto> [''WFS''], ''MAP'' \<mapsto> [''alice/village/village.qgs'']]"

definition update_parcels :: Transaction where
  "update_parcels = \<lparr>Updates = [WfsUpdate ''public:parcels''], Inserts = [], Deletes = []\<rparr>"

text \<open>A transaction with two updates and a delete, all on the layer \<open>parcels\<close>.\<close>

definition edit_parcels :: Transaction where
  "edit_parcels = \<lparr>Updates = [WfsUpdate ''public:parcels'', WfsUpdate ''parcels''],
                    Inserts = [], Deletes = [WfsDelete ''public:parcels'']\<rparr>"

definition town_state :: "town_body \<Rightarrow> town_body upload_state" where
  "town_state b =
     \<lparr>body = b, uploadProgress = [''a.txt'' \<mapsto> 0], lastNotification = 0, ticks = 0, sent = [],
      files = [''alice/town'' \<mapsto> [\<lparr>ProjectFile_Path = ''old.qml'', ProjectFile_Size = 0\<rparr>]]\<rparr>"

definition body_at_end :: town_body where
  "body_at_end = []"

definition body_bad_gzip :: town_body where
  "body_bad_gzip = [\<lparr>FormName = ''data.csv'', FileName = ''data.csv.gz''\<rparr>]"

section \<open>Properties of the OWS handler\<close>

subsection \<open>The run of the loops with the lookups written down\<close>

text \<open>Writing down the lookups does not change the run: the error and the cache are the
  ones of the run on the closure itself.\<close>

lemma checkUpdates_logged:
  "fst (checkUpdates (logged glp) us (perms, log)) = fst (checkUpdates glp us perms)
   \<and> fst (snd (checkUpdates (logged glp) us (perms, log))) = snd (checkUpdates glp us perms)"
  by (induction us arbitrary: perms log) (auto simp: logged_def split: prod.splits)

lemma checkObjects_logged:
  "fst (checkObjects (logged glp) obs (perms, log)) = fst (checkObjects glp obs perms)
   \<and> fst (snd (checkObjects (logged glp) obs (perms, log))) = snd (checkObjects glp obs perms)"
  by (induction obs arbitrary: perms log) (auto simp: logged_def split: prod.splits)

lemma checkDeletes_logged:
  "fst (checkDeletes (logged glp) ds (perms, log)) = fst (checkDeletes glp ds perms)
   \<and> fst (snd (checkDeletes (logged glp) ds (perms, log))) = snd (checkDeletes glp ds perms)"
  by (induction ds arbitrary: perms log) (auto simp: logged_def split: prod.splits)

lemma checkInserts_logged:
  "fst (checkInserts (logged glp) is (perms, log)) = fst (checkInserts glp is perms)
   \<and> fst (snd (checkInserts (logged glp) is (perms, log))) = snd (checkInserts glp is perms)"
proof (induction "is" arbitrary: perms log)
  case Nil
  then show ?case by simp
next
  case (Cons i "is")
  obtain e perms' log' where r: "checkObjects (logged glp) (Objects i) (perms, log) = (e, perms', log')"
    by (cases "checkObjects (logged glp) (Objects i) (perms, log)") auto
  with checkObjects_logged [of glp "Objects i" perms log]
  have o: "checkObjects glp (Objects i) perms = (e, perms')"
    by (cases "checkObjects glp (Objects i) perms") auto
  show ?case
    using r o Cons.IH [of perms' log'] by (cases e) auto
qed

lemma checkTransaction_logged:
  "fst (checkTransaction (logged glp) tx (perms, log)) = fst (checkTransaction glp tx perms)
   \<and> fst (snd (checkTransaction (logged glp) tx (perms, log)))
       = snd (checkTransaction glp tx perms)"
proof -
  obtain e1 p1 l1 where u: "checkUpdates (logged glp) (Updates tx) (perms, log) = (e1, p1, l1)"
    by (cases "checkUpdates (logged glp) (Updates tx) (perms, log)") auto
  with checkUpdates_logged [of glp "Updates tx" perms log]
  have u': "checkUpdates glp (Updates tx) perms = (e1, p1)"
    by (cases "checkUpdates glp (Updates tx) perms") auto
  obtain e2 p2 l2 where i: "checkInserts (logged glp) (Inserts tx) (p1, l1) = (e2, p2, l2)"
    by (cases "checkInserts (logged glp) (Inserts tx) (p1, l1)") auto
  with checkInserts_logged [of glp "Inserts tx" p1 l1]
  have i': "checkInserts glp (Inserts tx) p1 = (e2, p2)"
    by (cases "checkInserts glp (Inserts tx) p1") auto
  show ?thesis
    using u u' i i' checkDeletes_logged [of glp "Deletes tx" p2 l2]
    by (cases e1; cases e2) (auto simp: checkTransaction_def)
qed

lemma logged_empty_cache:
  "logged (getLayerPermissions s settings user layersData) t (Map.empty, log)
     = (NoPermission,
        ([layerId layersData t \<mapsto> UserLayerPermissions s settings user (layerId layersData t)],
         log @ [(t, NoPermission)]))"
  by (simp add: logged_def getLayerPermissions_def Let_def)

lemma checkUpdates_first:
  "checkUpdates (logged (getLayerPermissions s settings user layersData)) (u # us)
       (Map.empty, log)
     = (Some ErrUnauthorized,
        ([layerId layersData (update_TypeName u)
            \<mapsto> UserLayerPermissions s settings user (layerId layersData (update_TypeName u))],
         log @ [(update_TypeName u, NoPermission)]))"
  by (simp add: logged_empty_cache NoPermission_def)

lemma checkObjects_first:
  "checkObjects (logged (getLayerPermissions s settings user layersData)) (ob # obs)
       (Map.empty, log)
     = (Some ErrUnauthorized,
        ([layerId layersData (XMLName_Local ob)
            \<mapsto> UserLayerPermissions s settings user (layerId layersData (XMLName_Local ob))],
         log @ [(XMLName_Local ob, NoPermission)]))"
  by (simp add: logged_empty_cache NoPermission_def)

lemma checkDeletes_first:
  "checkDeletes (logged (getLayerPermissions s settings user layersData)) (d # ds)
       (Map.empty, log)
     = (Some ErrUnauthorized,
        ([layerId layersData (delete_TypeName d)
            \<mapsto> UserLayerPermissions s settings user (layerId layersData (delete_TypeName d))],
         log @ [(delete_TypeName d, NoPermission)]))"
  by (simp add: logged_empty_cache NoPermission_def)

lemma checkInserts_first:
  "checkInserts (logged (getLayerPermissions s settings user layersData)) is (Map.empty, log)
     = (case concat (map Objects is) of
          [] \<Rightarrow> (None, (Map.empty, log))
        | ob # obs \<Rightarrow>
            (Some ErrUnauthorized,
             ([layerId layersData (XMLName_Local ob)
                 \<mapsto> UserLayerPermissions s settings user (layerId layersData (XMLName_Local ob))],
              log @ [(XMLName_Local ob, NoPermission)])))"
proof (induction "is")
  case Nil
  then show ?case by simp
next
  case (Cons i "is")
  show ?case
  proof (cases "Objects i")
    case Nil
    with Cons show ?thesis by simp
  next
    case (Cons ob obs)
    then show ?thesis by (simp add: logged_empty_cache NoPermission_def)
  qed
qed

lemma operations_inserts:
  "concat (map (\<lambda>i. map f (Objects i)) is) = map f (concat (map Objects is))"
  by (induction "is") simp_all

lemma checkTransaction_first:
  "checkTransaction (logged (getLayerPermissions s settings user layersData)) tx (Map.empty, [])
     = (case operations tx of
          [] \<Rightarrow> (None, (Map.empty, []))
        | op # ops \<Rightarrow>
            (Some ErrUnauthorized,
             ([layerId layersData (snd op)
                 \<mapsto> UserLayerPermissions s settings user (layerId layersData (snd op))],
              [(snd op, NoPermission)])))"
proof (cases "Updates tx")
  case (Cons u us)
  then show ?thesis
    by (simp add: checkTransaction_def logged_empty_cache NoPermission_def operations_def)
next
  case upd: Nil
  let ?G = "logged (getLayerPermissions s settings user layersData)"
  show ?thesis
  proof (cases "concat (map Objects (Inserts tx))")
    case (Cons ob obs)
    have ci: "checkInserts ?G (Inserts tx) (Map.empty, [])
                = (Some ErrUnauthorized,
                   ([layerId layersData (XMLName_Local ob)
                       \<mapsto> UserLayerPermissions s settings user
                            (layerId layersData (XMLName_Local ob))],
                    [(XMLName_Local ob, NoPermission)]))"
      unfolding checkInserts_first Cons by simp
    have ops: "operations tx
                 = (OpInsert, XMLName_Local ob)
                   # map (\<lambda>ob. (OpInsert, XMLName_Local ob)) obs
                   @ map (\<lambda>d. (OpDelete, delete_TypeName d)) (Deletes tx)"
      unfolding operations_def operations_inserts upd Cons by simp
    show ?thesis
      unfolding ops by (simp add: checkTransaction_def upd ci)
  next
    case ins: Nil
    have ci: "checkInserts ?G (Inserts tx) (Map.empty, []) = (None, (Map.empty, []))"
      unfolding checkInserts_first ins by simp
    have ops: "operations tx = map (\<lambda>d. (OpDelete, delete_TypeName d)) (Deletes tx)"
      unfolding operations_def operations_inserts upd ins by simp
    show ?thesis
    proof (cases "Deletes tx")
      case Nil
      show ?thesis
        unfolding ops by (simp add: checkTransaction_def upd ci Nil)
    next
      case (Cons d ds)
      show ?thesis
        unfolding ops
        by (simp add: checkTransaction_def upd ci Cons logged_empty_cache NoPermission_def)
    qed
  qed
qed

lemma lookups_first:
  "lookups (getLayerPermissions s settings user layersData) tx
     = (case operations tx of [] \<Rightarrow> [] | op # ops \<Rightarrow> [(snd op, NoPermission)])"
  by (simp add: lookups_def checkTransaction_first split: list.splits)

lemma checkTransaction_empty_cache:
  "fst (checkTransaction (getLayerPermissions s settings user layersData) tx Map.empty)
     = (if operations tx = [] then None else Some ErrUnauthorized)"
proof -
  have "fst (checkTransaction (getLayerPermissions s settings user layersData) tx Map.empty)
          = fst (checkTransaction (logged (getLayerPermissions s settings user layersData)) tx
                   (Map.empty, []))"
    by (simp add: checkTransaction_logged)
  then show ?thesis
    by (simp add: checkTransaction_first split: list.splits)
qed

subsection \<open>The request sent to the backend\<close>

lemma hd_strings_Join: "e \<noteq> [] \<Longrightarrow> hd (strings_Join (e # es) sep) = hd e"
  by (cases es) auto

lemma strings_Join_nonempty: "e \<noteq> [] \<Longrightarrow> strings_Join (e # es) sep \<noteq> []"
  by (cases es) auto

lemma filepath_Join_publish_rooted:
  "\<exists>rest. filepath_Join (''/publish'' # es) = CHR ''/'' # rest"
proof -
  let ?p = "strings_Join (''/publish'' # es) ''/''"
  have ne: "?p \<noteq> []" by (rule strings_Join_nonempty) simp
  have "hd ?p = hd ''/publish''" by (rule hd_strings_Join) simp
  then have "hd ?p = CHR ''/''" by simp
  with ne show ?thesis by (simp add: Clean_def Let_def)
qed

lemma forwarded_failWith [simp]: "forwarded (failWith e) = []"
  by (simp add: failWith_def)

lemma response_failWith [simp]: "response (failWith e) = None"
  by (simp add: failWith_def)

lemma err_failWith [simp]: "err (failWith e) = Some e"
  by (simp add: failWith_def)

lemma forwardOws_request:
  assumes "r \<in> set (forwarded (forwardOws s c projectName pInfo))"
  shows "\<exists>target. url_Parse (lib s) (MapserverURL s) = Inr target
           \<and> Query (URL r) ''MAP'' = Some [filepath_Join [''/publish'', projectName, QgisFile pInfo]]
           \<and> Scheme (URL r) = Scheme target \<and> Host (URL r) = Host target
           \<and> Path (URL r) = Path target"
  using assms
  by (auto simp: forwardOws_def ServeHTTP_def director_def Let_def split: sum.splits)

subsection \<open>The handler and the service of the layers data\<close>

lemma director_GetLayersData [simp]: "director (s\<lparr>GetLayersData := g\<rparr>) = director s"
  by (rule ext) (simp add: director_def)

lemma ServeHTTP_GetLayersData [simp]: "ServeHTTP (s\<lparr>GetLayersData := g\<rparr>) = ServeHTTP s"
  by (intro ext) (simp add: ServeHTTP_def split: sum.splits)

lemma forwardOws_GetLayersData [simp]: "forwardOws (s\<lparr>GetLayersData := g\<rparr>) = forwardOws s"
  by (intro ext) (simp add: forwardOws_def)

lemma getLayerPermissions_GetLayersData [simp]:
  "getLayerPermissions (s\<lparr>GetLayersData := g\<rparr>) = getLayerPermissions s"
  by (intro ext) (simp add: getLayerPermissions_def Let_def split: option.splits)

lemmas town_defs =
  handleMapOws_def town_server_def town_lib_def town_request_def wfs_query_def wms_query_def
  wfs_transaction_query_def wfs_village_query_def update_parcels_def edit_parcels_def
  bindOwsQuery_def firstValue_def getProjectName_def Clean_def Split_def
  TrimSuffix_def HasSuffix_def Ext_def forwardOws_def ServeHTTP_def director_def failWith_def
  checkTransaction_def getLayerPermissions_def layerId_def Let_def town_target_def town_user_def
  town_layers_def grantAll_def viewOnly_def NoPermission_def ErrUnauthorized_def ErrNotFound_def
  operations_def granted_def lookups_def logged_def

subsection \<open>Claims\<close>

text \<open>
  C1 (the code departs from the claim). The claim: a WFS transaction whose layers all
  grant the needed permission is forwarded to the backend. On the example server the
  settings grant \<open>bob\<close> every permission on the layer \<open>parcels\<close>, and the transaction
  updates \<open>public:parcels\<close>; the handler answers \<open>ErrUnauthorized\<close> and nothing is
  forwarded, because the first lookup of a layer returns the permission with every flag
  false.
\<close>

theorem handleMapOws_rejects_granted_update:
  "Update (UserLayerPermissions (town_server ''published'' grantAll update_parcels) () town_user
             (layerId town_layers ''public:parcels''))
   \<and> err (handleMapOws (town_server ''published'' grantAll update_parcels)
            (town_request ''town'' wfs_query Map.empty ''<Transaction/>''))
       = Some ErrUnauthorized
   \<and> forwarded (handleMapOws (town_server ''published'' grantAll update_parcels)
            (town_request ''town'' wfs_query Map.empty ''<Transaction/>'')) = []"
  by (simp add: town_defs)



text \<open>
  C3 (the code departs from the claim). The claim: a request for a project that is not
  in the state \<open>published\<close> is rejected before the reverse proxy is invoked. A \<open>GetMap\<close>
  request for the example project in the state \<open>draft\<close> is forwarded to the backend and
  the handler returns \<open>nil\<close> with the response of the backend: \<open>handleMapOws\<close> loads the
  project info and reads only its file name, while \<open>handleGetProject\<close>, after the same
  load, returns an error when the state is not \<open>published\<close>.
\<close>

theorem handleMapOws_forwards_draft_project:
  "GetProjectInfo (town_server ''draft'' grantAll update_parcels)
       (getProjectName (town_request ''town'' wms_query Map.empty []))
     = Inr \<lparr>State = ''draft'', QgisFile = ''town.qgs''\<rparr>
   \<and> ''draft'' \<noteq> ''published''
   \<and> err (handleMapOws (town_server ''draft'' grantAll update_parcels)
            (town_request ''town'' wms_query Map.empty [])) = None
   \<and> length (forwarded (handleMapOws (town_server ''draft'' grantAll update_parcels)
            (town_request ''town'' wms_query Map.empty []))) = 1
   \<and> response (handleMapOws (town_server ''draft'' grantAll update_parcels)
            (town_request ''town'' wms_query Map.empty []))
       = Some \<lparr>StatusCode = 200, ResponseBody = ''served''\<rparr>"
  by (simp add: town_defs)

text \<open>
  C4, as stated, fails: the handler examines the body only of a request whose \<open>SERVICE\<close>
  parameter is \<open>WFS\<close> and whose \<open>REQUEST\<close> parameter is empty. A request with
  \<open>SERVICE=WFS\<close> and \<open>REQUEST=Transaction\<close> whose body parses to an update of
  \<open>public:parcels\<close>, on which the settings give \<open>bob\<close> no permission to update, is
  forwarded to the backend and the handler returns \<open>nil\<close>.
\<close>

theorem handleMapOws_forwards_unauthorized_update:
  "xml_Unmarshal (lib (town_server ''published'' viewOnly update_parcels))
       (Body (Req (town_request ''town'' wfs_transaction_query Map.empty ''<Transaction/>'')))
     = Inr update_parcels
   \<and> operations update_parcels = [(OpUpdate, ''public:parcels'')]
   \<and> \<not> granted (town_server ''published'' viewOnly update_parcels) () town_user town_layers
          (OpUpdate, ''public:parcels'')
   \<and> err (handleMapOws (town_server ''published'' viewOnly update_parcels)
            (town_request ''town'' wfs_transaction_query Map.empty ''<Transaction/>'')) = None
   \<and> length (forwarded (handleMapOws (town_server ''published'' viewOnly update_parcels)
               (town_request ''town'' wfs_transaction_query Map.empty ''<Transaction/>''))) = 1"
  by (simp add: town_defs)

text \<open>
  C4, amended: for a request that the handler treats as a WFS transaction (the
  \<open>SERVICE\<close> parameter is \<open>WFS\<close> and the \<open>REQUEST\<close> parameter is empty), for a project
  whose info, settings and layers data load and with a body that parses, when the
  transaction has an operation for which the settings do not give the user the flag of
  its kind, the handler returns \<open>ErrUnauthorized\<close>, sends nothing to the backend and
  writes no response of the backend. The handler stops no later than at the first such
  operation: the operations it has looked up are an initial part of the operations of the
  transaction, in their order, that ends at or before the first operation which is not
  granted.
\<close>

theorem handleMapOws_unauthorized_operation:
  assumes "BindQueryParams (lib s) c = Inr params" and "Service params = ''WFS''"
    and "Request params = []"
    and "GetProjectInfo s (getProjectName c) = Inr pInfo"
    and "GetSettings s (getProjectName c) = Inr settings"
    and "GetLayersData s (TrimSuffix (Map params) (Ext (Map params))) = Inr layersData"
    and "xml_Unmarshal (lib s) (Body (Req c)) = Inr tx"
    and "\<exists>op \<in> set (operations tx). \<not> granted s settings (fst (GetUser s c)) layersData op"
  shows "err (handleMapOws s c) = Some ErrUnauthorized \<and> forwarded (handleMapOws s c) = []
         \<and> response (handleMapOws s c) = None
         \<and> map fst (lookups (getLayerPermissions s settings (fst (GetUser s c)) layersData) tx)
             = take (length (lookups (getLayerPermissions s settings (fst (GetUser s c))
                                        layersData) tx))
                 (map snd (operations tx))
         \<and> length (lookups (getLayerPermissions s settings (fst (GetUser s c)) layersData) tx)
             \<le> Suc (length (takeWhile (granted s settings (fst (GetUser s c)) layersData)
                               (operations tx)))"
proof -
  from assms(8) obtain op ops where ops: "operations tx = op # ops"
    by (cases "operations tx") auto
  then have "fst (checkTransaction (getLayerPermissions s settings (fst (GetUser s c)) layersData)
                    tx Map.empty) = Some ErrUnauthorized"
    by (simp add: checkTransaction_empty_cache)
  with assms(1-7) have "handleMapOws s c = failWith ErrUnauthorized"
    by (simp add: handleMapOws_def Let_def)
  with ops show ?thesis
    by (simp add: lookups_first)
qed

theorem handleMapOws_unauthorized_operation_witness:
  "operations update_parcels = [(OpUpdate, ''public:parcels'')]
   \<and> \<not> granted (town_server ''published'' viewOnly update_parcels) () town_user town_layers
          (OpUpdate, ''public:parcels'')
   \<and> err (handleMapOws (town_server ''published'' viewOnly update_parcels)
            (town_request ''town'' wfs_query Map.empty ''<Transaction/>''))
       = Some ErrUnauthorized
   \<and> forwarded (handleMapOws (town_server ''published'' viewOnly update_parcels)
            (town_request ''town'' wfs_query Map.empty ''<Transaction/>'')) = []
   \<and> response (handleMapOws (town_server ''published'' viewOnly update_parcels)
            (town_request ''town'' wfs_query Map.empty ''<Transaction/>'')) = None
   \<and> map fst (lookups (getLayerPermissions (town_server ''published'' viewOnly update_parcels)
                          () town_user town_layers) update_parcels)
       = [''public:parcels'']"
  using handleMapOws_unauthorized_operation
    [of "town_server ''published'' viewOnly update_parcels"
        "town_request ''town'' wfs_query Map.empty ''<Transaction/>''"
        "\<lparr>Service = ''WFS'', Request = [], Map = ''alice/town/town.qgs''\<rparr>"
        "\<lparr>State = ''published'', QgisFile = ''town.qgs''\<rparr>" "()" town_layers update_parcels]
  by (simp add: town_defs)

text \<open>
  C7: every request the handler sends to the backend has its \<open>MAP\<close> parameter set to the
  join of \<open>/publish\<close>, the project name of the URL path and the QGIS file name of the
  project, which is an absolute path, and has the scheme, the host and the path of the
  configured address of the map server.
\<close>

theorem handleMapOws_forwarded_request:
  assumes "r \<in> set (forwarded (handleMapOws s c))"
  shows "\<exists>pInfo target rest.
           GetProjectInfo s (getProjectName c) = Inr pInfo
           \<and> url_Parse (lib s) (MapserverURL s) = Inr target
           \<and> Query (URL r) ''MAP''
               = Some [filepath_Join [''/publish'', getProjectName c, QgisFile pInfo]]
           \<and> filepath_Join [''/publish'', getProjectName c, QgisFile pInfo] = CHR ''/'' # rest
           \<and> Scheme (URL r) = Scheme target \<and> Host (URL r) = Host target
           \<and> Path (URL r) = Path target"
proof -
  from assms obtain pInfo where
    info: "GetProjectInfo s (getProjectName c) = Inr pInfo" and
    fw: "r \<in> set (forwarded (forwardOws s c (getProjectName c) pInfo))"
    by (auto simp: handleMapOws_def Let_def split: sum.splits if_splits option.splits)
  from forwardOws_request [OF fw] obtain target where
    t: "url_Parse (lib s) (MapserverURL s) = Inr target"
      "Query (URL r) ''MAP''
         = Some [filepath_Join [''/publish'', getProjectName c, QgisFile pInfo]]"
      "Scheme (URL r) = Scheme target" "Host (URL r) = Host target" "Path (URL r) = Path target"
    by blast
  from filepath_Join_publish_rooted obtain rest where
    "filepath_Join [''/publish'', getProjectName c, QgisFile pInfo] = CHR ''/'' # rest"
    by blast
  with info t show ?thesis by blast
qed

theorem handleMapOws_forwarded_request_witness:
  "hd (forwarded (handleMapOws (town_server ''published'' grantAll update_parcels)
                    (town_request ''town'' wms_query Map.empty [])))
     \<in> set (forwarded (handleMapOws (town_server ''published'' grantAll update_parcels)
                         (town_request ''town'' wms_query Map.empty [])))
   \<and> Query (URL (hd (forwarded (handleMapOws (town_server ''published'' grantAll update_parcels)
                                  (town_request ''town'' wms_query Map.empty []))))) ''MAP''
       = Some [''/publish/alice/town/town.qgs'']
   \<and> Scheme (URL (hd (forwarded (handleMapOws (town_server ''published'' grantAll update_parcels)
                                   (town_request ''town'' wms_query Map.empty []))))) = ''http''
   \<and> Host (URL (hd (forwarded (handleMapOws (town_server ''published'' grantAll update_parcels)
                                 (town_request ''town'' wms_query Map.empty [])))))
       = ''qgis-server''
   \<and> Path (URL (hd (forwarded (handleMapOws (town_server ''published'' grantAll update_parcels)
                                 (town_request ''town'' wms_query Map.empty []))))) = ''/qgis''"
  using handleMapOws_forwarded_request
    [of "hd (forwarded (handleMapOws (town_server ''published'' grantAll update_parcels)
                          (town_request ''town'' wms_query Map.empty [])))"
        "town_server ''published'' grantAll update_parcels"
        "town_request ''town'' wms_query Map.empty []"]
  by (simp add: town_defs)



section \<open>Properties of the handlers of the project files\<close>

text \<open>
  C6: when the part reader signals the end of the parts, \<open>nextFile\<close> returns \<open>io.EOF\<close> and
  sends the progress map to the user as an \<open>UploadProgress\<close> message. The clock is not
  read, so the message is sent whatever the time of the last notification.
\<close>

theorem nextFile_end_sends_snapshot:
  assumes "fst (NextPart l (body st)) = Inl EOF"
  shows "fst (nextFile l user st) = Inl EOF
         \<and> sent (snd (nextFile l user st))
             = sent st @ [(Username user, ''UploadProgress'', uploadProgress st)]
         \<and> ticks (snd (nextFile l user st)) = ticks st"
  using assms by (auto simp: nextFile_def Let_def split: prod.splits sum.splits)

text \<open>On the example the last notification is as recent as the clock, so that the
  callback of a reader would not send; the end of the parts sends.\<close>

theorem nextFile_end_sends_snapshot_witness:
  "fst (NextPart (town_lib update_parcels) (body (town_state body_at_end))) = Inl EOF
   \<and> clock (town_lib update_parcels) 0 - lastNotification (town_state body_at_end) = 0
   \<and> sent (snd (nextFile (town_lib update_parcels) town_user (town_state body_at_end)))
       = [(''bob'', ''UploadProgress'', [''a.txt'' \<mapsto> 0])]"
  using nextFile_end_sends_snapshot
    [of "town_lib update_parcels" "town_state body_at_end" town_user]
  by (simp add: town_state_def body_at_end_def town_user_def town_lib_def)

text \<open>
  C9: for a part whose file name ends in \<open>.gz\<close> and whose form name does not, an error of
  \<open>gzip.NewReader\<close> is dropped: \<open>nextFile\<close> returns the form name and a \<open>ProgressReader\<close>
  without an error, the reader it wraps is the nil gzip reader, and every read through it
  panics.
\<close>

theorem nextFile_drops_gzip_error:
  assumes "NextPart l (body st) = (Inr part, b)"
    and "HasSuffix (FileName part) ''.gz''" and "\<not> HasSuffix (FormName part) ''.gz''"
    and "gzip_NewReader l part b = (Inl e, b')"
  shows "\<exists>pr. fst (nextFile l user st) = Inr (FormName part, pr)
           \<and> Reader pr = NilGzipReader
           \<and> (\<forall>k st1. ProgressReader_Read l pr k st1 = Inl (Panic ''nil pointer dereference''))"
  using assms by (simp add: nextFile_def Let_def ProgressReader_Read_def Reader_Read_def)

text \<open>On the example the part \<open>data.csv\<close> is sent as the file \<open>data.csv.gz\<close> and is
  empty, so that the header of the gzip stream cannot be read.\<close>

theorem nextFile_drops_gzip_error_witness:
  "HasSuffix ''data.csv.gz'' ''.gz'' \<and> \<not> HasSuffix ''data.csv'' ''.gz''
   \<and> fst (gzip_NewReader (town_lib update_parcels)
            \<lparr>FormName = ''data.csv'', FileName = ''data.csv.gz''\<rparr>
            (snd (NextPart (town_lib update_parcels) (body (town_state body_bad_gzip)))))
       = Inl EOF
   \<and> fst (projr (fst (nextFile (town_lib update_parcels) town_user
                         (town_state body_bad_gzip)))) = ''data.csv''
   \<and> Reader (snd (projr (fst (nextFile (town_lib update_parcels) town_user
                                 (town_state body_bad_gzip))))) = NilGzipReader
   \<and> ProgressReader_Read (town_lib update_parcels)
        (snd (projr (fst (nextFile (town_lib update_parcels) town_user
                           (town_state body_bad_gzip)))))
        (32 * 1024) (town_state body_bad_gzip) = Inl (Panic ''nil pointer dereference'')"
  using nextFile_drops_gzip_error
    [of "town_lib update_parcels" "town_state body_bad_gzip"
        "\<lparr>FormName = ''data.csv'', FileName = ''data.csv.gz''\<rparr>" "[]" EOF "[]" town_user]
  by (simp add: town_state_def body_bad_gzip_def town_lib_def
      HasSuffix_def nextFile_def Let_def ProgressReader_Read_def Reader_Read_def)

text \<open>
  C10: a deletion request whose body binds to an empty list of files is answered with
  the error 400 \<open>No files specified\<close>; \<open>UpdateFiles\<close> is not called and the state, the
  files of the projects included, is the one before the request.
\<close>

theorem handleDeleteProjectFiles_empty_list:
  assumes "BindBody (lib s) c = Inr []"
  shows "handleDeleteProjectFiles s c st
           = Some (Failed (HTTPError 400 ''No files specified''), st)"
  using assms by (simp add: handleDeleteProjectFiles_def)

theorem handleDeleteProjectFiles_empty_list_witness:
  "BindBody (lib (town_server ''published'' grantAll update_parcels))
      (town_request ''town'' Map.empty Map.empty ''{files:[]}'') = Inr []
   \<and> handleDeleteProjectFiles (town_server ''published'' grantAll update_parcels)
        (town_request ''town'' Map.empty Map.empty ''{files:[]}'') (town_state body_at_end)
       = Some (Failed (HTTPError 400 ''No files specified''), town_state body_at_end)"
  using handleDeleteProjectFiles_empty_list
    [of "town_server ''published'' grantAll update_parcels"
        "town_request ''town'' Map.empty Map.empty ''{files:[]}''" "town_state body_at_end"]
  by (simp add: town_server_def town_lib_def town_request_def)

end
